theory Spec2Isabelle
  imports Complex_Main
begin

section \<open>Data model\<close>

text \<open>
  A line of the input file decodes (\<open>json.loads\<close>) to a dictionary. Each of the five
  fields the pipeline reads is either not a key of the dictionary, a key bound to JSON
  \<open>null\<close>, or a key bound to a value of the field's type (order ids, categories and
  timestamps are strings, user ids integers, amounts numbers; numbers are exact rationals
  here, binary floating point is not modelled).
\<close>

datatype 'a field = Absent | Null | Val 'a

record raw_order =
  r_order_id :: "string field"
  r_user_id :: "int field"
  r_category :: "string field"
  r_amount :: "rat field"
  r_timestamp :: "string field"

text \<open>
  A line that is valid JSON decodes to an object, read as above, or to another JSON value
  (a number, a string, a list, \<open>null\<close>, a boolean), which is not a record. An object
  with a field of another type than the one given above is not a value of this model: what
  pandas does with it is not described here.
\<close>

datatype json = Object raw_order | NonObject

text \<open>
  A pandas DataFrame: the column labels and the rows. A row has one cell for each column
  the program ever reads or writes; \<open>None\<close> is pandas' missing value (\<open>None\<close>, \<open>NaN\<close>,
  \<open>NaT\<close>), which is also what a cell holds when its column is not a column of the frame.
  The type \<open>'ts\<close> is the parsed date-time.
\<close>

record 'ts row =
  order_id :: "string option"
  user_id :: "int option"
  category :: "string option"
  amount :: "rat option"
  timestamp :: "string option"
  ts_clean :: "'ts option"
  order_date :: "string option"

record 'ts frame =
  columns :: "string list"
  rows :: "'ts row list"

text \<open>
  A value of the analytical engine (\<open>COUNT\<close> gives an integer, the other aggregates a
  number or \<open>NULL\<close>); a result table is a list of rows of named values.
\<close>

datatype sqlval = SqlNull | SqlInt int | SqlNum rat | SqlText string

type_synonym table = "(string \<times> sqlval) list list"

text \<open>What the program prints, one constructor for each message that carries information.\<close>

datatype msg =
    FileNotFound
  | ErrorReadingFile
  | InvalidJSON nat
  | NoValidData
  | Extracted nat
  | SkippedMalformed nat
  | MissingColumns "string set"
  | RemovingInvalidTs nat
  | RemovingNegative nat
  | RemovingNull nat
  | RemovingDuplicates nat
  | Transformed nat
  | RecordsRemoved nat
  | Traceback
  | Loaded
  | ErrorWritingParquet
  | Printed table
  | AnalyticsFailed
  | PipelineCompleted
  | ParquetNotFound
  | ErrorConnecting
  | ErrorCategoryQuery
  | ErrorDailyQuery
  | ErrorSummaryQuery
  | AnalysisComplete

text \<open>
  A call either returns or ends the process with a status: \<open>sys.exit\<close>, or an
  exception nothing catches, which prints a traceback and ends the process with status 1.
\<close>

datatype 'a outcome = Exit nat | Return 'a

section \<open>Extract: building the frame\<close>

definition keys :: "raw_order \<Rightarrow> string list" where
  "keys r =
     (if r_order_id r = Absent then [] else [''order_id'']) @
     (if r_user_id r = Absent then [] else [''user_id'']) @
     (if r_category r = Absent then [] else [''category'']) @
     (if r_amount r = Absent then [] else [''amount'']) @
     (if r_timestamp r = Absent then [] else [''timestamp''])"

fun cell :: "'a field \<Rightarrow> 'a option" where
  "cell Absent = None"
| "cell Null = None"
| "cell (Val v) = Some v"

text \<open>
  The input path: no such file, or a file that yields these lines and then either ends or
  fails with an \<open>IOError\<close> (at once when it cannot be opened).
\<close>

datatype input_file = NoFile | File "string list" bool

definition to_row :: "raw_order \<Rightarrow> 'ts row" where
  "to_row r =
     \<lparr>order_id = cell (r_order_id r), user_id = cell (r_user_id r),
      category = cell (r_category r), amount = cell (r_amount r),
      timestamp = cell (r_timestamp r), ts_clean = None, order_date = None\<rparr>"

text \<open>
  \<open>pd.DataFrame(rows)\<close> on dictionaries: the columns are the keys of all the
  dictionaries together.
\<close>

definition DataFrame :: "raw_order list \<Rightarrow> 'ts frame" where
  "DataFrame rs = \<lparr>columns = remdups (concat (map keys rs)), rows = map to_row rs\<rparr>"

fun is_object :: "json \<Rightarrow> bool" where
  "is_object (Object r) = True"
| "is_object NonObject = False"

fun objects :: "json list \<Rightarrow> raw_order list" where
  "objects [] = []"
| "objects (Object r # vs) = r # objects vs"
| "objects (NonObject # vs) = objects vs"

definition blank_row :: "'ts row" where
  "blank_row =
     \<lparr>order_id = None, user_id = None, category = None, amount = None,
      timestamp = None, ts_clean = None, order_date = None\<rparr>"

text \<open>
  \<open>pd.DataFrame(rows)\<close> on the decoded values, \<open>None\<close> where it raises. When every
  value is an object it is the frame above. When the first value is an object and another
  value is not, pandas asks that value for its keys and raises. Otherwise pandas either
  raises or builds a frame whose column labels are integers, so that none of the named
  columns is a column of it; which of the two is for pandas to say (\<open>raises\<close>).
\<close>

definition pd_DataFrame :: "(json list \<Rightarrow> bool) \<Rightarrow> json list \<Rightarrow> 'ts frame option" where
  "pd_DataFrame raises vs =
     (if list_all is_object vs then Some (DataFrame (objects vs))
      else if (case vs of Object r # rest \<Rightarrow> True | _ \<Rightarrow> raises vs) then None
      else Some \<lparr>columns = [], rows = map (\<lambda>v. blank_row) vs\<rparr>)"

text \<open>
  The loop over the lines, numbered from \<open>line_num\<close>: the values decoded, the number of
  lines that failed to decode, and one warning for each of them. \<open>loads\<close> is
  \<open>json.loads\<close>, \<open>None\<close> where it raises \<open>JSONDecodeError\<close>; a value that is not an
  object is appended like any other.
\<close>

fun read_lines :: "(string \<Rightarrow> json option) \<Rightarrow> nat \<Rightarrow> string list \<Rightarrow>
    json list \<times> nat \<times> msg list" where
  "read_lines loads line_num [] = ([], 0, [])"
| "read_lines loads line_num (line # ls) =
     (case read_lines loads (Suc line_num) ls of (rs, errors, warnings) \<Rightarrow>
        (case loads line of
           Some r \<Rightarrow> (r # rs, errors, warnings)
         | None \<Rightarrow> (rs, Suc errors, InvalidJSON line_num # warnings)))"

text \<open>
  The last line of \<open>extract_data\<close> builds the frame outside any \<open>try\<close>: when
  \<open>pd.DataFrame\<close> raises, the counts are already printed and the process ends with a
  traceback.
\<close>

definition extract_data :: "(string \<Rightarrow> json option) \<Rightarrow> (json list \<Rightarrow> bool) \<Rightarrow> input_file \<Rightarrow>
    msg list \<times> 'ts frame outcome" where
  "extract_data loads raises input =
     (case input of
        NoFile \<Rightarrow> ([FileNotFound], Exit 1)
      | File ls io_error \<Rightarrow>
          (case read_lines loads 1 ls of (rs, errors, warnings) \<Rightarrow>
             if io_error then (warnings @ [ErrorReadingFile], Exit 1)
             else if rs = [] then (warnings @ [NoValidData], Exit 1)
             else (let printed = warnings @ [Extracted (length rs)] @
                                   (if errors > 0 then [SkippedMalformed errors] else [])
                   in case pd_DataFrame raises rs of
                        None \<Rightarrow> (printed @ [Traceback], Exit 1)
                      | Some df \<Rightarrow> (printed, Return df))))"

section \<open>Transform\<close>

definition required_cols :: "string list" where
  "required_cols = [''order_id'', ''user_id'', ''category'', ''amount'', ''timestamp'']"

definition validate_schema :: "'ts frame \<Rightarrow> msg list \<times> bool outcome" where
  "validate_schema df =
     (let missing = set required_cols - set (columns df)
      in if missing \<noteq> {} then ([MissingColumns missing], Exit 1) else ([], Return True))"

definition filter_rows :: "('ts row \<Rightarrow> bool) \<Rightarrow> 'ts frame \<Rightarrow> 'ts frame" where
  "filter_rows P df = df\<lparr>rows := filter P (rows df)\<rparr>"

definition add_column :: "string \<Rightarrow> string list \<Rightarrow> string list" where
  "add_column c cs = (if c \<in> set cs then cs else cs @ [c])"

text \<open>
  \<open>pd.to_datetime(column, errors='coerce')\<close>: a missing cell stays missing; a string is
  parsed by pandas, which may look at the whole column to choose the format, and a string
  it cannot parse becomes \<open>NaT\<close>. The parser is a parameter.
\<close>

definition to_datetime :: "(string option list \<Rightarrow> string \<Rightarrow> 'ts option) \<Rightarrow>
    string option list \<Rightarrow> string option \<Rightarrow> 'ts option" where
  "to_datetime parse col c = (case c of None \<Rightarrow> None | Some s \<Rightarrow> parse col s)"

definition clean_timestamps :: "(string option list \<Rightarrow> string \<Rightarrow> 'ts option) \<Rightarrow>
    'ts frame \<Rightarrow> msg list \<times> 'ts frame" where
  "clean_timestamps parse df =
     (let col = map timestamp (rows df);
          df1 = df\<lparr>columns := add_column ''ts_clean'' (columns df),
                   rows := map (\<lambda>r. r\<lparr>ts_clean := to_datetime parse col (timestamp r)\<rparr>) (rows df)\<rparr>;
          invalid_ts = length (filter (\<lambda>r. ts_clean r = None) (rows df1))
      in if invalid_ts > 0
         then ([RemovingInvalidTs invalid_ts], filter_rows (\<lambda>r. ts_clean r \<noteq> None) df1)
         else ([], df1))"

definition add_order_date :: "('ts \<Rightarrow> string) \<Rightarrow> 'ts frame \<Rightarrow> 'ts frame" where
  "add_order_date date_str df =
     df\<lparr>columns := add_column ''order_date'' (columns df),
        rows := map (\<lambda>r. r\<lparr>order_date := map_option date_str (ts_clean r)\<rparr>) (rows df)\<rparr>"

text \<open>A comparison with a missing value is false in pandas, whichever way it is asked.\<close>

definition amount_lt0 :: "'ts row \<Rightarrow> bool" where
  "amount_lt0 r = (case amount r of None \<Rightarrow> False | Some a \<Rightarrow> a < 0)"

definition amount_ge0 :: "'ts row \<Rightarrow> bool" where
  "amount_ge0 r = (case amount r of None \<Rightarrow> False | Some a \<Rightarrow> a \<ge> 0)"

definition remove_negative_amounts :: "'ts frame \<Rightarrow> msg list \<times> 'ts frame" where
  "remove_negative_amounts df =
     (let negative_amounts = length (filter amount_lt0 (rows df))
      in if negative_amounts > 0
         then ([RemovingNegative negative_amounts], filter_rows amount_ge0 df)
         else ([], df))"

definition remove_null_amounts :: "'ts frame \<Rightarrow> msg list \<times> 'ts frame" where
  "remove_null_amounts df =
     (let null_amounts = length (filter (\<lambda>r. amount r = None) (rows df))
      in if null_amounts > 0
         then ([RemovingNull null_amounts], filter_rows (\<lambda>r. amount r \<noteq> None) df)
         else ([], df))"

text \<open>
  \<open>Series.duplicated()\<close> marks every value that has occurred before it in the column
  (missing values count as equal to each other); \<open>drop_duplicates(keep="first")\<close> keeps
  the rows that are not marked.
\<close>

fun duplicated_from :: "'k list \<Rightarrow> 'k list \<Rightarrow> bool list" where
  "duplicated_from seen [] = []"
| "duplicated_from seen (k # ks) = (k \<in> set seen) # duplicated_from (k # seen) ks"

definition duplicated :: "'k list \<Rightarrow> bool list" where
  "duplicated ks = duplicated_from [] ks"

definition drop_duplicates :: "('r \<Rightarrow> 'k) \<Rightarrow> 'r list \<Rightarrow> 'r list" where
  "drop_duplicates key rs = map fst (filter (\<lambda>(r, d). \<not> d) (zip rs (duplicated (map key rs))))"

definition remove_duplicate_order_ids :: "'ts frame \<Rightarrow> msg list \<times> 'ts frame" where
  "remove_duplicate_order_ids df =
     (let duplicates = length (filter id (duplicated (map order_id (rows df))))
      in if duplicates > 0
         then ([RemovingDuplicates duplicates], df\<lparr>rows := drop_duplicates order_id (rows df)\<rparr>)
         else ([], df))"

definition fill_category :: "'ts frame \<Rightarrow> 'ts frame" where
  "fill_category df =
     df\<lparr>rows := map (\<lambda>r. r\<lparr>category := (case category r of None \<Rightarrow> Some ''Unknown'' | Some c \<Rightarrow> Some c)\<rparr>)
                 (rows df)\<rparr>"

definition clean_columns :: "string list" where
  "clean_columns = [''order_id'', ''user_id'', ''category'', ''amount'', ''ts_clean'', ''order_date'']"

definition select_clean_columns :: "'ts frame \<Rightarrow> 'ts frame" where
  "select_clean_columns df =
     \<lparr>columns = clean_columns, rows = map (\<lambda>r. r\<lparr>timestamp := None\<rparr>) (rows df)\<rparr>"

text \<open>The rows of \<open>transform_data\<close> after its last step, without the report.\<close>

definition cleaned :: "(string option list \<Rightarrow> string \<Rightarrow> 'ts option) \<Rightarrow> ('ts \<Rightarrow> string) \<Rightarrow>
    'ts frame \<Rightarrow> 'ts frame" where
  "cleaned parse date_str df =
     select_clean_columns (fill_category (snd (remove_duplicate_order_ids
       (snd (remove_null_amounts (snd (remove_negative_amounts
         (add_order_date date_str (snd (clean_timestamps parse df))))))))))"

definition transform_data :: "(string option list \<Rightarrow> string \<Rightarrow> 'ts option) \<Rightarrow> ('ts \<Rightarrow> string) \<Rightarrow>
    'ts frame \<Rightarrow> msg list \<times> 'ts frame outcome" where
  "transform_data parse date_str df =
     (let initial_count = length (rows df)
      in case validate_schema df of
           (m0, Exit c) \<Rightarrow> (m0, Exit c)
         | (m0, Return ok) \<Rightarrow>
             (let (m1, df1) = clean_timestamps parse df;
                  df2 = add_order_date date_str df1;
                  (m2, df3) = remove_negative_amounts df2;
                  (m3, df4) = remove_null_amounts df3;
                  (m4, df5) = remove_duplicate_order_ids df4;
                  df6 = fill_category df5;
                  df7 = select_clean_columns df6;
                  final_count = length (rows df7);
                  removed = initial_count - final_count
              in (m0 @ m1 @ m2 @ m3 @ m4 @ [Transformed final_count] @
                    (if removed > 0 then [RecordsRemoved removed] else []),
                  Return df7)))"

section \<open>Load\<close>

text \<open>
  \<open>writable\<close> says whether creating the directory, writing the file and reading its size
  all succeed. What is returned is the frame the output file then holds.
\<close>

definition load_data :: "bool \<Rightarrow> 'ts frame \<Rightarrow> msg list \<times> 'ts frame outcome" where
  "load_data writable df =
     (if writable then ([Loaded], Return df) else ([ErrorWritingParquet], Exit 1))"

section \<open>Aggregate queries\<close>

text \<open>
  The select list of a query without \<open>GROUP BY\<close>: the aggregates over \<open>amount\<close> and
  \<open>user_id\<close> the program's SQL uses, each with its alias.
\<close>

datatype agg =
    CountStar
  | CountDistinctUserId
  | SumAmount
  | AvgAmount
  | MinAmount
  | MaxAmount
  | Round agg nat

datatype query = CategoryQuery | DailyQuery | SummaryQuery "(agg \<times> string) list"

definition summary_preview :: "(agg \<times> string) list" where
  "summary_preview =
     [(CountStar, ''total_orders''), (CountDistinctUserId, ''unique_users''),
      (Round SumAmount 2, ''total_revenue''), (Round AvgAmount 2, ''avg_order'')]"

definition summary_overall :: "(agg \<times> string) list" where
  "summary_overall =
     [(CountStar, ''total_orders''), (CountDistinctUserId, ''unique_users''),
      (Round SumAmount 2, ''total_revenue''), (Round AvgAmount 2, ''avg_order_value''),
      (Round MinAmount 2, ''min_order''), (Round MaxAmount 2, ''max_order'')]"

text \<open>
  The engine computes on binary floating-point numbers. An amount is such a number, and
  so a rational; \<open>MIN\<close> and \<open>MAX\<close> give one of the amounts and \<open>COUNT\<close> an integer.
  \<open>SUM\<close>, \<open>AVG\<close> and \<open>ROUND\<close> give the floating-point number the engine computes,
  and which number that is is the engine's to say: the three operations are parameters.
\<close>

record arith =
  fsum :: "rat list \<Rightarrow> rat"
  favg :: "rat list \<Rightarrow> rat"
  fround :: "nat \<Rightarrow> rat \<Rightarrow> rat"

definition amounts :: "'ts row list \<Rightarrow> rat list" where
  "amounts rs = concat (map (\<lambda>r. case amount r of None \<Rightarrow> [] | Some a \<Rightarrow> [a]) rs)"

definition user_ids :: "'ts row list \<Rightarrow> int list" where
  "user_ids rs = concat (map (\<lambda>r. case user_id r of None \<Rightarrow> [] | Some u \<Rightarrow> [u]) rs)"

text \<open>SQL aggregates skip \<open>NULL\<close>s, and all but \<open>COUNT\<close> are \<open>NULL\<close> over no values.\<close>

fun eval_agg :: "arith \<Rightarrow> agg \<Rightarrow> 'ts row list \<Rightarrow> sqlval" where
  "eval_agg ar CountStar rs = SqlInt (int (length rs))"
| "eval_agg ar CountDistinctUserId rs = SqlInt (int (length (remdups (user_ids rs))))"
| "eval_agg ar SumAmount rs =
     (case amounts rs of [] \<Rightarrow> SqlNull | a # as \<Rightarrow> SqlNum (fsum ar (a # as)))"
| "eval_agg ar AvgAmount rs =
     (case amounts rs of [] \<Rightarrow> SqlNull | a # as \<Rightarrow> SqlNum (favg ar (a # as)))"
| "eval_agg ar MinAmount rs =
     (case amounts rs of [] \<Rightarrow> SqlNull | a # as \<Rightarrow> SqlNum (fold min as a))"
| "eval_agg ar MaxAmount rs =
     (case amounts rs of [] \<Rightarrow> SqlNull | a # as \<Rightarrow> SqlNum (fold max as a))"
| "eval_agg ar (Round e n) rs =
     (case eval_agg ar e rs of SqlNum x \<Rightarrow> SqlNum (fround ar n x) | v \<Rightarrow> v)"

definition eval_select :: "arith \<Rightarrow> (agg \<times> string) list \<Rightarrow> 'ts row list \<Rightarrow> (string \<times> sqlval) list" where
  "eval_select ar sel rs = map (\<lambda>(e, alias). (alias, eval_agg ar e rs)) sel"

text \<open>
  The engine is an outside collaborator: executing a query over a frame gives a table or
  raises (\<open>None\<close>). An engine that follows SQL answers a summary query with the one row
  \<open>eval_select\<close> computes with the engine's arithmetic; what it answers to the two
  \<open>GROUP BY\<close> queries is left open (\<open>grouped\<close>), and \<open>fails\<close> says which queries raise.
\<close>

type_synonym 'ts engine = "query \<Rightarrow> 'ts frame \<Rightarrow> table option"

definition sql_engine :: "arith \<Rightarrow> (query \<Rightarrow> bool) \<Rightarrow> (query \<Rightarrow> 'ts frame \<Rightarrow> table) \<Rightarrow>
    'ts engine" where
  "sql_engine ar fails grouped q df =
     (if fails q then None
      else case q of
             SummaryQuery sel \<Rightarrow> Some [eval_select ar sel (rows df)]
           | _ \<Rightarrow> Some (grouped q df))"

text \<open>
  \<open>run_analytics\<close>, the preview inside the pipeline: what it prints and the queries it
  has sent to the engine. \<open>connect\<close> is \<open>None\<close> when \<open>duckdb.connect()\<close> raises.
\<close>

definition run_analytics :: "'ts engine option \<Rightarrow> 'ts frame \<Rightarrow> msg list \<times> query list" where
  "run_analytics connect df =
     (case connect of
        None \<Rightarrow> ([AnalyticsFailed], [])
      | Some con \<Rightarrow>
          (case con CategoryQuery df of
             None \<Rightarrow> ([AnalyticsFailed], [CategoryQuery])
           | Some result \<Rightarrow>
               (case con (SummaryQuery summary_preview) df of
                  None \<Rightarrow>
                    ([Printed result, AnalyticsFailed], [CategoryQuery, SummaryQuery summary_preview])
                | Some summary \<Rightarrow>
                    ([Printed result, Printed summary],
                     [CategoryQuery, SummaryQuery summary_preview]))))"

text \<open>
  The analytics script, run on its own against the output file (\<open>None\<close> when the file
  does not exist): what it prints, its exit status and the queries sent to the engine.
\<close>

definition analytics_script :: "'ts frame option \<Rightarrow> 'ts engine option \<Rightarrow>
    msg list \<times> nat \<times> query list" where
  "analytics_script parquet connect =
     (case parquet of
        None \<Rightarrow> ([ParquetNotFound], 1, [])
      | Some df \<Rightarrow>
          (case connect of
             None \<Rightarrow> ([ErrorConnecting], 1, [])
           | Some con \<Rightarrow>
               (let m1 = (case con CategoryQuery df of
                            Some result \<Rightarrow> [Printed result] | None \<Rightarrow> [ErrorCategoryQuery]);
                    m2 = (case con DailyQuery df of
                            Some result \<Rightarrow> [Printed result] | None \<Rightarrow> [ErrorDailyQuery]);
                    m3 = (case con (SummaryQuery summary_overall) df of
                            Some summary \<Rightarrow> [Printed summary] | None \<Rightarrow> [ErrorSummaryQuery])
                in (m1 @ m2 @ m3 @ [AnalysisComplete], 0,
                    [CategoryQuery, DailyQuery, SummaryQuery summary_overall]))))"

section \<open>The pipeline\<close>

text \<open>\<open>main\<close>: everything printed, and the exit status of the process.\<close>

definition main :: "(string \<Rightarrow> json option) \<Rightarrow> (json list \<Rightarrow> bool) \<Rightarrow>
    (string option list \<Rightarrow> string \<Rightarrow> 'ts option) \<Rightarrow> ('ts \<Rightarrow> string) \<Rightarrow>
    input_file \<Rightarrow> bool \<Rightarrow> 'ts engine option \<Rightarrow> msg list \<times> nat" where
  "main loads raises parse date_str input writable connect =
     (case extract_data loads raises input of
        (m1, Exit c) \<Rightarrow> (m1, c)
      | (m1, Return df) \<Rightarrow>
          (case transform_data parse date_str df of
             (m2, Exit c) \<Rightarrow> (m1 @ m2, c)
           | (m2, Return clean) \<Rightarrow>
               (case load_data writable clean of
                  (m3, Exit c) \<Rightarrow> (m1 @ m2 @ m3, c)
                | (m3, Return written) \<Rightarrow>
                    (m1 @ m2 @ m3 @ fst (run_analytics connect clean) @ [PipelineCompleted], 0))))"

section \<open>Auxiliary definitions\<close>

text \<open>The rows \<open>drop_duplicates\<close> keeps, by recursion on the rows.\<close>


fun keep_unseen :: "'k list \<Rightarrow> ('r \<Rightarrow> 'k) \<Rightarrow> 'r list \<Rightarrow> 'r list" where
  "keep_unseen seen key [] = []"
| "keep_unseen seen key (r # rs) =
     (if key r \<in> set seen then keep_unseen (key r # seen) key rs
      else r # keep_unseen (key r # seen) key rs)"

text \<open>The frame inside \<open>transform_data\<close> as each quality rule finds it.\<close>

definition after_dates :: "(string option list \<Rightarrow> string \<Rightarrow> 'ts option) \<Rightarrow> ('ts \<Rightarrow> string) \<Rightarrow> 'ts frame \<Rightarrow> 'ts frame" where
  "after_dates parse date_str df = add_order_date date_str (snd (clean_timestamps parse df))"

definition after_negative :: "(string option list \<Rightarrow> string \<Rightarrow> 'ts option) \<Rightarrow> ('ts \<Rightarrow> string) \<Rightarrow> 'ts frame \<Rightarrow> 'ts frame" where
  "after_negative parse date_str df = snd (remove_negative_amounts (after_dates parse date_str df))"

definition after_null :: "(string option list \<Rightarrow> string \<Rightarrow> 'ts option) \<Rightarrow> ('ts \<Rightarrow> string) \<Rightarrow> 'ts frame \<Rightarrow> 'ts frame" where
  "after_null parse date_str df = snd (remove_null_amounts (after_negative parse date_str df))"

text \<open>
  What the clean records have in common, and a frame given a \<open>timestamp\<close> column
  again (column \<open>f\<close> of each row).
\<close>

definition clean_frame :: "('ts \<Rightarrow> string) \<Rightarrow> 'ts frame \<Rightarrow> bool" where
  "clean_frame date_str df \<longleftrightarrow>
     columns df = clean_columns \<and>
     list_all (\<lambda>r. (\<exists>a. amount r = Some a \<and> 0 \<le> a) \<and> category r \<noteq> None \<and> timestamp r = None \<and>
                 (\<exists>t. ts_clean r = Some t \<and> order_date r = Some (date_str t))) (rows df) \<and>
     distinct (map order_id (rows df))"

definition with_timestamps :: "('ts row \<Rightarrow> string) \<Rightarrow> 'ts frame \<Rightarrow> 'ts frame" where
  "with_timestamps f df =
     df\<lparr>columns := columns df @ [''timestamp''],
        rows := map (\<lambda>r. r\<lparr>timestamp := Some (f r)\<rparr>) (rows df)\<rparr>"

text \<open>
  The numbers of the lines that do not decode, counted from \<open>line_num\<close>; the values
  the lines of a file decode to, in line order, and the records among them; and whether
  reading the file fails.
\<close>

definition malformed_at :: "(string \<Rightarrow> json option) \<Rightarrow> nat \<Rightarrow> string list \<Rightarrow> nat list" where
  "malformed_at loads line_num ls =
     map fst (filter (\<lambda>(i, l). loads l = None) (zip [line_num ..< line_num + length ls] ls))"




section \<open>Example inputs\<close>

text \<open>
  A stand-in for the date-time parser, for running the definitions on concrete inputs: it
  accepts the strings of 19 characters and takes the first 10 as the date.
\<close>

definition example_parse :: "string option list \<Rightarrow> string \<Rightarrow> string option" where
  "example_parse col s = (if length s = 19 then Some s else None)"

definition example_date :: "string \<Rightarrow> string" where
  "example_date t = take 10 t"

definition order :: "string field \<Rightarrow> int field \<Rightarrow> string field \<Rightarrow> rat field \<Rightarrow> string field \<Rightarrow> raw_order" where
  "order i u c a t = \<lparr>r_order_id = i, r_user_id = u, r_category = c, r_amount = a, r_timestamp = t\<rparr>"

definition example_orders :: "raw_order list" where
  "example_orders =
     [order (Val ''a'') (Val 1) (Val ''Beauty'') (Val 10) (Val ''2024-01-01T00:00:00''),
      order (Val ''a'') (Val 2) (Val ''Home'') (Val 20) (Val ''2024-01-01T00:01:00''),
      order (Val ''b'') (Val 2) Absent (Val (5 / 2)) (Val ''2024-01-02T00:00:00''),
      order (Val ''c'') (Val 3) (Val ''Home'') (Val (- 5)) (Val ''2024-01-02T00:00:00''),
      order (Val ''d'') (Val 3) (Val ''Home'') Null (Val ''2024-01-02T00:00:00''),
      order (Val ''e'') (Val 4) Null (Val 7) (Val ''yesterday'')]"

definition example_frame :: "string frame" where
  "example_frame = DataFrame example_orders"

definition clean_row :: "string \<Rightarrow> int \<Rightarrow> string \<Rightarrow> rat \<Rightarrow> string \<Rightarrow> string \<Rightarrow> string row" where
  "clean_row i u c a t d =
     \<lparr>order_id = Some i, user_id = Some u, category = Some c, amount = Some a,
      timestamp = None, ts_clean = Some t, order_date = Some d\<rparr>"

definition example_clean :: "string frame" where
  "example_clean =
     \<lparr>columns = clean_columns,
      rows = [clean_row ''a'' 1 ''Beauty'' 10 ''2024-01-01T00:00:00'' ''2024-01-01'',
              clean_row ''b'' 2 ''Unknown'' (5 / 2) ''2024-01-02T00:00:00'' ''2024-01-02'']\<rparr>"

definition example_report :: "msg list" where
  "example_report =
     [RemovingInvalidTs 1, RemovingNegative 1, RemovingDuplicates 1, Transformed 2, RecordsRemoved 4]"

definition negative_and_null :: "raw_order list" where
  "negative_and_null =
     [order (Val ''a'') (Val 1) (Val ''Beauty'') (Val (- 5)) (Val ''2024-01-01T00:00:00''),
      order (Val ''b'') (Val 2) (Val ''Home'') Null (Val ''2024-01-01T00:01:00'')]"

definition one_order :: "raw_order list" where
  "one_order = [order (Val ''a'') (Val 1) (Val ''Beauty'') (Val 10) (Val ''2024-01-01T00:00:00'')]"

definition partial_orders :: "raw_order list" where
  "partial_orders =
     [order (Val ''a'') (Val 1) Absent (Val 10) (Val ''2024-01-01T00:00:00''),
      order (Val ''b'') Absent (Val ''Home'') Absent (Val ''2024-01-01T00:01:00''),
      order (Val ''c'') (Val 3) (Val ''Home'') (Val 5) Absent]"

definition partial_frame :: "string frame" where
  "partial_frame = DataFrame partial_orders"

definition parsed_string :: "string row \<Rightarrow> string" where
  "parsed_string r = (case ts_clean r of None \<Rightarrow> [] | Some t \<Rightarrow> t)"

text \<open>
  A stand-in for \<open>json.loads\<close>: a line that starts with a brace decodes to an order
  whose id is the rest of the line, a line that starts with the digit 1 to a number, and
  any other line does not decode. \<open>pandas_builds\<close> is a pandas that never raises where
  the model leaves it the choice.
\<close>

definition example_loads :: "string \<Rightarrow> json option" where
  "example_loads line =
     (case line of
        [] \<Rightarrow> None
      | c # cs \<Rightarrow>
          if c = CHR ''{''
          then Some (Object (order (Val cs) (Val 1) (Val ''Home'') (Val 10)
                 (Val ''2024-01-01T00:00:00'')))
          else if c = CHR ''1'' then Some NonObject
          else None)"

definition pandas_builds :: "json list \<Rightarrow> bool" where
  "pandas_builds vs = False"

text \<open>
  Arithmetic without rounding error, with \<open>ROUND\<close> to the nearest multiple of
  \<open>10^-n\<close>, halves away from zero. On the example amounts, 10 and 5/2, the sums and
  averages are binary fractions, and floating-point arithmetic gives the same numbers.
\<close>

definition round_to :: "nat \<Rightarrow> rat \<Rightarrow> rat" where
  "round_to n x =
     (let y = x * 10 ^ n
      in (if y \<ge> 0 then of_int \<lfloor>y + 1 / 2\<rfloor> else - of_int \<lfloor>- y + 1 / 2\<rfloor>) / 10 ^ n)"

definition exact_arith :: arith where
  "exact_arith =
     \<lparr>fsum = sum_list, favg = (\<lambda>xs. sum_list xs / of_nat (length xs)), fround = round_to\<rparr>"

definition example_lines :: "string list" where
  "example_lines = [''{a'', ''oops'', [], ''{b'']"

definition no_groups :: "query \<Rightarrow> string frame \<Rightarrow> table" where
  "no_groups q df = []"

definition category_fails :: "query \<Rightarrow> bool" where
  "category_fails q = (q = CategoryQuery)"

definition never_fails :: "query \<Rightarrow> bool" where
  "never_fails q = False"

section \<open>De-duplication\<close>

lemma unmarked_keep_unseen:
  "map fst (filter (\<lambda>(r, d). \<not> d) (zip rs (duplicated_from seen (map key rs)))) = keep_unseen seen key rs"
  by (induction rs arbitrary: seen) auto

lemma drop_duplicates_keep_unseen: "drop_duplicates key rs = keep_unseen [] key rs"
  by (simp add: drop_duplicates_def duplicated_def unmarked_keep_unseen)

lemma keep_unseen_filter_key:
  "filter (\<lambda>r. key r = k) (keep_unseen seen key rs)
   = (if k \<in> set seen then [] else take 1 (filter (\<lambda>r. key r = k) rs))"
  by (induction rs arbitrary: seen) auto

lemma keep_unseen_subset: "set (keep_unseen seen key rs) \<subseteq> set rs"
  by (induction rs arbitrary: seen) auto

lemma keep_unseen_fresh: "r \<in> set (keep_unseen seen key rs) \<Longrightarrow> key r \<notin> set seen"
proof (induction rs arbitrary: seen)
  case Nil
  then show ?case by simp
next
  case (Cons a rs)
  show ?case
  proof (cases "r \<in> set (keep_unseen (key a # seen) key rs)")
    case True
    from Cons.IH[OF True] show ?thesis by simp
  next
    case False
    with Cons.prems have "r = a" "key a \<notin> set seen" by (auto split: if_splits)
    then show ?thesis by simp
  qed
qed

lemma keep_unseen_distinct: "distinct (map key (keep_unseen seen key rs))"
proof (induction rs arbitrary: seen)
  case Nil
  then show ?case by simp
next
  case (Cons a rs)
  have "key a \<notin> key ` set (keep_unseen (key a # seen) key rs)"
  proof
    assume "key a \<in> key ` set (keep_unseen (key a # seen) key rs)"
    then obtain x where x: "x \<in> set (keep_unseen (key a # seen) key rs)" "key x = key a"
      by auto
    from keep_unseen_fresh[OF x(1)] x(2) show False by simp
  qed
  with Cons.IH[of "key a # seen"] show ?case by simp
qed

lemma duplicated_count:
  "length (filter id (duplicated_from seen (map key rs))) + length (keep_unseen seen key rs) = length rs"
  by (induction rs arbitrary: seen) auto

lemma keep_unseen_noop:
  "filter id (duplicated_from seen (map key rs)) = [] \<Longrightarrow> keep_unseen seen key rs = rs"
  by (induction rs arbitrary: seen) (auto split: if_splits)

lemma drop_duplicates_filter_key:
  "filter (\<lambda>r. key r = k) (drop_duplicates key rs) = take 1 (filter (\<lambda>r. key r = k) rs)"
  by (simp add: drop_duplicates_keep_unseen keep_unseen_filter_key)

section \<open>The steps of the Transformer\<close>

lemma filter_length_0: "length (filter P xs) = 0 \<longleftrightarrow> (\<forall>x\<in>set xs. \<not> P x)"
  by (simp add: filter_empty_conv)

lemma clean_timestamps_rows:
  "rows (snd (clean_timestamps parse df)) =
     filter (\<lambda>r. ts_clean r \<noteq> None)
       (map (\<lambda>r. r\<lparr>ts_clean := to_datetime parse (map timestamp (rows df)) (timestamp r)\<rparr>) (rows df))"
  by (auto simp: clean_timestamps_def Let_def filter_rows_def filter_empty_conv filter_id_conv)

lemma remove_negative_rows:
  "rows (snd (remove_negative_amounts df)) =
     (if \<exists>r\<in>set (rows df). amount_lt0 r then filter amount_ge0 (rows df) else rows df)"
  by (auto simp: remove_negative_amounts_def Let_def filter_rows_def filter_empty_conv)

lemma remove_negative_not_lt0:
  "r \<in> set (rows (snd (remove_negative_amounts df))) \<Longrightarrow> \<not> amount_lt0 r"
  by (auto simp: remove_negative_rows amount_lt0_def amount_ge0_def split: if_splits option.splits)

lemma remove_negative_subset:
  "set (rows (snd (remove_negative_amounts df))) \<subseteq> set (rows df)"
  by (auto simp: remove_negative_rows)

lemma remove_null_rows:
  "rows (snd (remove_null_amounts df)) = filter (\<lambda>r. amount r \<noteq> None) (rows df)"
  by (auto simp: remove_null_amounts_def Let_def filter_rows_def filter_empty_conv filter_id_conv)

lemma remove_duplicates_rows:
  "rows (snd (remove_duplicate_order_ids df)) = drop_duplicates order_id (rows df)"
  by (auto simp: remove_duplicate_order_ids_def Let_def duplicated_def drop_duplicates_keep_unseen
      keep_unseen_noop)

lemma transform_data_Return:
  "transform_data parse date_str df = (msgs, Return out) \<Longrightarrow> out = cleaned parse date_str df"
  by (auto simp: transform_data_def cleaned_def Let_def split: prod.splits outcome.splits)

lemma cleaned_rows:
  "rows (cleaned parse date_str df) =
     map (\<lambda>r. r\<lparr>category := (case category r of None \<Rightarrow> Some ''Unknown'' | Some c \<Rightarrow> Some c),
               timestamp := None\<rparr>)
       (drop_duplicates order_id
         (filter (\<lambda>r. amount r \<noteq> None)
           (rows (snd (remove_negative_amounts
              (add_order_date date_str (snd (clean_timestamps parse df))))))))"
  by (simp add: cleaned_def select_clean_columns_def fill_category_def remove_duplicates_rows
      remove_null_rows o_def)

lemma cleaned_source:
  assumes "r \<in> set (rows (cleaned parse date_str df))"
  shows "\<exists>s\<in>set (rows df). \<exists>t a.
           to_datetime parse (map timestamp (rows df)) (timestamp s) = Some t \<and>
           amount s = Some a \<and> 0 \<le> a \<and>
           r = s\<lparr>category := (case category s of None \<Rightarrow> Some ''Unknown'' | Some c \<Rightarrow> Some c),
                 timestamp := None, ts_clean := Some t, order_date := Some (date_str t)\<rparr>"
proof -
  let ?D = "add_order_date date_str (snd (clean_timestamps parse df))"
  from assms obtain u where u: "u \<in> set (rows (snd (remove_negative_amounts ?D)))"
      "amount u \<noteq> None"
      "r = u\<lparr>category := (case category u of None \<Rightarrow> Some ''Unknown'' | Some c \<Rightarrow> Some c),
              timestamp := None\<rparr>"
  proof -
    let ?F = "filter (\<lambda>r. amount r \<noteq> None) (rows (snd (remove_negative_amounts ?D)))"
    from assms obtain u where "u \<in> set (drop_duplicates order_id ?F)"
      "r = u\<lparr>category := (case category u of None \<Rightarrow> Some ''Unknown'' | Some c \<Rightarrow> Some c),
              timestamp := None\<rparr>"
      unfolding cleaned_rows by auto
    moreover have "set (drop_duplicates order_id ?F) \<subseteq> set ?F"
      unfolding drop_duplicates_keep_unseen by (rule keep_unseen_subset)
    ultimately show ?thesis using that by auto
  qed
  from u(1) have nn: "\<not> amount_lt0 u" by (rule remove_negative_not_lt0)
  from u(1) have "u \<in> set (rows ?D)" using remove_negative_subset by blast
  then obtain s t where s: "s \<in> set (rows df)"
      "to_datetime parse (map timestamp (rows df)) (timestamp s) = Some t"
      "u = s\<lparr>ts_clean := Some t, order_date := Some (date_str t)\<rparr>"
    by (auto simp: add_order_date_def clean_timestamps_rows)
  from u(2) nn s(3) obtain a where "amount s = Some a" "0 \<le> a"
    by (auto simp: amount_lt0_def split: option.splits)
  with s u(3) show ?thesis
    by (intro bexI[of _ s]) (auto)
qed

lemma cleaned_distinct: "distinct (map order_id (rows (cleaned parse date_str df)))"
  using keep_unseen_distinct[of order_id "[]"]
  by (simp add: cleaned_rows drop_duplicates_keep_unseen o_def)

lemma example_transform:
  "transform_data example_parse example_date example_frame
   = (example_report, Return example_clean)"
  unfolding example_frame_def by code_simp

section \<open>The report of the Transformer\<close>

lemma transform_data_msgs:
  assumes "transform_data parse date_str df = (msgs, Return out)"
  shows "msgs = fst (clean_timestamps parse df)
           @ fst (remove_negative_amounts (after_dates parse date_str df))
           @ fst (remove_null_amounts (after_negative parse date_str df))
           @ fst (remove_duplicate_order_ids (after_null parse date_str df))
           @ [Transformed (length (rows out))]
           @ (if length (rows df) - length (rows out) > 0
              then [RecordsRemoved (length (rows df) - length (rows out))] else [])"
  using assms
  by (auto simp: transform_data_def validate_schema_def after_dates_def after_negative_def after_null_def Let_def
      split: prod.splits outcome.splits if_splits)

lemma clean_timestamps_msgs:
  "fst (clean_timestamps parse df) =
     (let n = length (filter (\<lambda>r. to_datetime parse (map timestamp (rows df)) (timestamp r) = None) (rows df))
      in if 0 < n then [RemovingInvalidTs n] else [])"
  by (simp add: clean_timestamps_def Let_def filter_map o_def)

section \<open>The Transformer on clean records\<close>

lemma cleaned_columns: "columns (cleaned parse date_str df) = clean_columns"
  by (simp add: cleaned_def select_clean_columns_def)

lemma cleaned_clean_frame: "clean_frame date_str (cleaned parse date_str df)"
proof -
  have "(\<exists>a. amount r = Some a \<and> 0 \<le> a) \<and> category r \<noteq> None \<and> timestamp r = None \<and>
        (\<exists>t. ts_clean r = Some t \<and> order_date r = Some (date_str t))"
    if "r \<in> set (rows (cleaned parse date_str df))" for r
    using cleaned_source[OF that] by (auto split: option.splits)
  then show ?thesis
    by (simp add: clean_frame_def cleaned_columns cleaned_distinct list_all_iff)
qed

lemma retransform_exits:
  "columns df = clean_columns \<Longrightarrow>
   transform_data parse date_str df = ([MissingColumns {''timestamp''}], Exit 1)"
  by (auto simp: transform_data_def validate_schema_def required_cols_def clean_columns_def)

lemma distinct_not_duplicated:
  "distinct ks \<Longrightarrow> set ks \<inter> set seen = {} \<Longrightarrow> filter id (duplicated_from seen ks) = []"
  by (induction ks arbitrary: seen) auto

lemma frame_eqI: "columns a = columns b \<Longrightarrow> rows a = rows b \<Longrightarrow> (a :: 'ts frame) = b"
  by simp

lemma transform_restored:
  assumes cf: "clean_frame date_str out"
    and p: "\<forall>r\<in>set (rows out). parse (map (\<lambda>r. Some (f r)) (rows out)) (f r) = ts_clean r"
  shows "transform_data parse date_str (with_timestamps f out) = ([Transformed (length (rows out))], Return out)"
proof -
  let ?W = "with_timestamps f out"
  from cf have cols: "columns out = clean_columns"
    and inv: "\<And>r. r \<in> set (rows out) \<Longrightarrow> (\<exists>a. amount r = Some a \<and> 0 \<le> a) \<and> category r \<noteq> None \<and>
        timestamp r = None \<and> (\<exists>t. ts_clean r = Some t \<and> order_date r = Some (date_str t))"
    and dis: "distinct (map order_id (rows out))"
    by (auto simp: clean_frame_def list_all_iff)
  have od: "map_option date_str (ts_clean r) = order_date r" if "r \<in> set (rows out)" for r
    using inv[OF that] by auto
  have cat: "(case category r of None \<Rightarrow> Some ''Unknown'' | Some c \<Rightarrow> Some c) = category r"
    if "r \<in> set (rows out)" for r
    using inv[OF that] by auto
  have tsn: "r\<lparr>timestamp := None\<rparr> = r" if "r \<in> set (rows out)" for r
    using inv[OF that] by auto
  have nneg: "\<not> amount_lt0 r" and nnull: "amount r \<noteq> None" and tsv: "ts_clean r \<noteq> None"
    if "r \<in> set (rows out)" for r
    using inv[OF that] by (auto simp: amount_lt0_def)
  have v: "validate_schema ?W = ([], Return True)"
    by (auto simp: validate_schema_def with_timestamps_def cols clean_columns_def required_cols_def)
  have col: "map timestamp (rows ?W) = map (\<lambda>r. Some (f r)) (rows out)"
    by (simp add: with_timestamps_def o_def)
  have ts: "map (\<lambda>r. r\<lparr>ts_clean := to_datetime parse (map timestamp (rows ?W)) (timestamp r)\<rparr>) (rows ?W) = rows ?W"
    unfolding col using p by (auto simp: with_timestamps_def to_datetime_def)
  have noinv: "filter (\<lambda>r. ts_clean r = None) (rows ?W) = []"
    using tsv by (auto simp: with_timestamps_def filter_empty_conv)
  have s1: "clean_timestamps parse ?W = ([], ?W)"
    unfolding clean_timestamps_def Let_def
    by (simp add: ts noinv) (simp add: with_timestamps_def cols clean_columns_def add_column_def)
  have s2: "add_order_date date_str ?W = ?W"
    apply (rule frame_eqI)
    by (auto simp: add_order_date_def with_timestamps_def cols clean_columns_def add_column_def od)
  have s3: "remove_negative_amounts ?W = ([], ?W)"
    using nneg by (auto simp: remove_negative_amounts_def Let_def with_timestamps_def amount_lt0_def filter_empty_conv)
  have s4: "remove_null_amounts ?W = ([], ?W)"
    using nnull by (auto simp: remove_null_amounts_def Let_def with_timestamps_def filter_empty_conv)
  have "map order_id (rows ?W) = map order_id (rows out)"
    by (simp add: with_timestamps_def o_def)
  with dis have "filter id (duplicated (map order_id (rows ?W))) = []"
    by (simp add: duplicated_def distinct_not_duplicated)
  then have s5: "remove_duplicate_order_ids ?W = ([], ?W)"
    by (simp add: remove_duplicate_order_ids_def)
  have s6: "fill_category ?W = ?W"
    apply (rule frame_eqI)
    by (auto simp: fill_category_def with_timestamps_def cat)
  have s7: "select_clean_columns ?W = out"
    apply (rule frame_eqI)
    by (auto simp: select_clean_columns_def with_timestamps_def cols o_def tsn intro!: map_idI)
  have len: "length (rows ?W) = length (rows out)"
    by (simp add: with_timestamps_def)
  show ?thesis
    by (simp add: transform_data_def v s1 s2 s3 s4 s5 s6 s7 len Let_def)
qed

section \<open>Schema validation and missing cells\<close>

lemma keep_unseen_keys: "key ` set (keep_unseen seen key rs) = key ` set rs - set seen"
  by (induction rs arbitrary: seen) auto

lemma drop_duplicates_keys: "key ` set (drop_duplicates key rs) = key ` set rs"
  by (simp add: drop_duplicates_keep_unseen keep_unseen_keys)

lemma cleaned_keeps_id:
  assumes s: "s \<in> set (rows df)"
    and t: "to_datetime parse (map timestamp (rows df)) (timestamp s) = Some t"
    and a: "amount s = Some a" "0 \<le> a"
  shows "order_id s \<in> order_id ` set (rows (cleaned parse date_str df))"
proof -
  let ?u = "s\<lparr>ts_clean := Some t, order_date := Some (date_str t)\<rparr>"
  let ?D = "add_order_date date_str (snd (clean_timestamps parse df))"
  from s t have "?u \<in> set (rows ?D)"
    by (force simp: add_order_date_def clean_timestamps_rows)
  moreover from a have "amount_ge0 ?u"
    by (simp add: amount_ge0_def)
  ultimately have "?u \<in> set (rows (snd (remove_negative_amounts ?D)))"
    by (simp add: remove_negative_rows)
  with a have "?u \<in> set (filter (\<lambda>r. amount r \<noteq> None) (rows (snd (remove_negative_amounts ?D))))"
    by simp
  then have "order_id ?u \<in> order_id ` set (drop_duplicates order_id
      (filter (\<lambda>r. amount r \<noteq> None) (rows (snd (remove_negative_amounts ?D)))))"
    unfolding drop_duplicates_keys by (rule imageI)
  then show ?thesis
    by (simp add: cleaned_rows image_image)
qed

lemma validate_schema_DataFrame:
  "validate_schema (DataFrame rs) = ([], Return True) \<longleftrightarrow>
     (\<forall>c\<in>set required_cols. \<exists>r\<in>set rs. c \<in> set (keys r))"
  by (auto simp: validate_schema_def DataFrame_def Let_def)

lemma transform_data_passes:
  "validate_schema df = ([], Return True) \<Longrightarrow>
   \<exists>msgs. transform_data parse date_str df = (msgs, Return (cleaned parse date_str df))"
  by (simp add: transform_data_def cleaned_def Let_def split: prod.splits)

lemma cell_Some: "cell x = Some v \<longleftrightarrow> x = Val v"
  by (cases x) auto

section \<open>The Extractor and the exit status\<close>

lemma read_lines_eq:
  "read_lines loads n ls =
     (List.map_filter loads ls, length (filter (\<lambda>l. loads l = None) ls),
      map InvalidJSON (malformed_at loads n ls))"
proof (induction ls arbitrary: n)
  case Nil
  then show ?case by (simp add: malformed_at_def)
next
  case (Cons l ls)
  have up: "[n ..< Suc (n + length ls)] = n # [Suc n ..< Suc (n + length ls)]"
    by (rule upt_conv_Cons) simp
  show ?case
    by (cases "loads l") (simp_all add: Cons.IH malformed_at_def up del: upt_Suc)
qed

lemma map_filter_length:
  "length (List.map_filter f xs) + length (filter (\<lambda>x. f x = None) xs) = length xs"
  by (induction xs) (auto split: option.splits)

lemma malformed_at_length:
  "length (malformed_at loads n ls) = length (filter (\<lambda>l. loads l = None) ls)"
proof -
  have "length (filter (\<lambda>(i, l). loads l = None) (zip is ls)) = length (filter (\<lambda>l. loads l = None) ls)"
    if "length is = length ls" for "is" :: "nat list"
    using that by (induction "is" ls rule: list_induct2) auto
  then show ?thesis by (simp add: malformed_at_def)
qed

lemma pd_DataFrame_objects:
  "list_all is_object vs \<Longrightarrow> pd_DataFrame raises vs = Some (DataFrame (objects vs))"
  by (simp add: pd_DataFrame_def)





text \<open>A file of a record and a number: the counts are printed, then the traceback.\<close>

lemma number_line_ends_in_traceback:
  "main example_loads raises example_parse example_date (File [''{a'', ''123''] False) True None
     = ([Extracted 2, Traceback], 1)"
  by (simp add: main_def extract_data_def example_loads_def pd_DataFrame_def)

section \<open>The summary query\<close>

lemma fold_min_Min: "fold min as a = Min (set (a # as))"
  by (rule Min.set_eq_fold[symmetric])

lemma fold_max_Max: "fold max as a = Max (set (a # as))"
  by (rule Max.set_eq_fold[symmetric])

lemma eval_agg_amounts:
  "eval_agg ar SumAmount rs = (if amounts rs = [] then SqlNull else SqlNum (fsum ar (amounts rs)))"
  "eval_agg ar AvgAmount rs = (if amounts rs = [] then SqlNull else SqlNum (favg ar (amounts rs)))"
  "eval_agg ar MinAmount rs = (if amounts rs = [] then SqlNull else SqlNum (Min (set (amounts rs))))"
  "eval_agg ar MaxAmount rs = (if amounts rs = [] then SqlNull else SqlNum (Max (set (amounts rs))))"
  by (cases "amounts rs"; simp add: fold_min_Min fold_max_Max del: Min.set_eq_fold Max.set_eq_fold set_simps)+

lemma eval_summary_overall:
  "eval_select ar summary_overall rs =
     [(''total_orders'', SqlInt (int (length rs))),
      (''unique_users'', SqlInt (int (card (set (user_ids rs))))),
      (''total_revenue'',
         if amounts rs = [] then SqlNull else SqlNum (fround ar 2 (fsum ar (amounts rs)))),
      (''avg_order_value'',
         if amounts rs = [] then SqlNull else SqlNum (fround ar 2 (favg ar (amounts rs)))),
      (''min_order'',
         if amounts rs = [] then SqlNull else SqlNum (fround ar 2 (Min (set (amounts rs))))),
      (''max_order'',
         if amounts rs = [] then SqlNull else SqlNum (fround ar 2 (Max (set (amounts rs)))))]"
  unfolding eval_select_def summary_overall_def
  by (simp add: eval_agg_amounts length_remdups_card_conv del: eval_agg.simps(3-6))

lemma eval_summary_preview:
  "eval_select ar summary_preview rs =
     [(''total_orders'', SqlInt (int (length rs))),
      (''unique_users'', SqlInt (int (card (set (user_ids rs))))),
      (''total_revenue'',
         if amounts rs = [] then SqlNull else SqlNum (fround ar 2 (fsum ar (amounts rs)))),
      (''avg_order'',
         if amounts rs = [] then SqlNull else SqlNum (fround ar 2 (favg ar (amounts rs))))]"
  unfolding eval_select_def summary_preview_def
  by (simp add: eval_agg_amounts length_remdups_card_conv del: eval_agg.simps(3-6))

lemma script_prints_summary:
  "\<not> fails (SummaryQuery summary_overall) \<Longrightarrow>
   Printed [eval_select ar summary_overall (rows df)]
     \<in> set (fst (analytics_script (Some df) (Some (sql_engine ar fails grouped))))"
  by (simp add: analytics_script_def sql_engine_def Let_def)

lemma preview_prints_summary:
  "\<not> fails CategoryQuery \<Longrightarrow> \<not> fails (SummaryQuery summary_preview) \<Longrightarrow>
   fst (run_analytics (Some (sql_engine ar fails grouped)) df)
     = [Printed (grouped CategoryQuery df), Printed [eval_select ar summary_preview (rows df)]]"
  by (simp add: run_analytics_def sql_engine_def)

section \<open>The claims\<close>

text \<open>
  C1. Whatever the input frame, when the Transformer returns a frame and the Loader writes
  it, every record written has an amount that is present and not negative, a parsed
  timestamp, and a category, and no two records written share an order id.
\<close>

theorem transform_output_invariant:
  assumes "transform_data parse date_str df = (msgs, Return out)"
    and "load_data writable out = (msgs', Return written)"
  shows "(\<forall>r\<in>set (rows written).
            (\<exists>a. amount r = Some a \<and> 0 \<le> a) \<and> ts_clean r \<noteq> None \<and> category r \<noteq> None)
         \<and> distinct (map order_id (rows written))"
proof -
  from assms(2) have w: "written = out"
    by (simp add: load_data_def split: if_splits)
  from assms(1) have out: "out = cleaned parse date_str df"
    by (rule transform_data_Return)
  have "(\<exists>a. amount r = Some a \<and> 0 \<le> a) \<and> ts_clean r \<noteq> None \<and> category r \<noteq> None"
    if "r \<in> set (rows (cleaned parse date_str df))" for r
    using cleaned_source[OF that] by (auto split: option.splits)
  then show ?thesis
    unfolding w out using cleaned_distinct[of parse date_str df] by blast
qed

theorem transform_output_invariant_witness:
  "transform_data example_parse example_date example_frame
     = (example_report, Return example_clean)
   \<and> load_data True example_clean = ([Loaded], Return example_clean)
   \<and> list_all (\<lambda>r. (\<exists>a. amount r = Some a \<and> 0 \<le> a) \<and> ts_clean r \<noteq> None \<and> category r \<noteq> None)
        (rows example_clean)
   \<and> distinct (map order_id (rows example_clean))"
proof -
  have l: "load_data True example_clean = ([Loaded], Return example_clean)"
    by (simp add: load_data_def)
  from transform_output_invariant[OF example_transform l] show ?thesis
    using example_transform l by (simp add: list_all_iff)
qed

text \<open>
  C9. After the de-duplication step, the records with a given order id are exactly the
  first record with that id in the frame that reached the step (none when no record has
  it), with all its cells unchanged.
\<close>

theorem dedup_keeps_first:
  "filter (\<lambda>r. order_id r = k) (rows (snd (remove_duplicate_order_ids df)))
     = take 1 (filter (\<lambda>r. order_id r = k) (rows df))"
  unfolding remove_duplicates_rows drop_duplicates_keep_unseen
  by (simp add: keep_unseen_filter_key)

theorem dedup_keeps_first_witness:
  "filter (\<lambda>r. order_id r = Some ''x'')
     (rows (snd (remove_duplicate_order_ids
        \<lparr>columns = clean_columns,
         rows = [clean_row ''x'' 1 ''Home'' 10 ''t1'' ''d1'', clean_row ''y'' 1 ''Home'' 3 ''t2'' ''d2'',
                 clean_row ''x'' 2 ''Home'' 20 ''t3'' ''d3'']\<rparr>)))
   = [clean_row ''x'' 1 ''Home'' 10 ''t1'' ''d1'']"
  using dedup_keeps_first[of "Some ''x''"
      "\<lparr>columns = clean_columns,
        rows = [clean_row ''x'' 1 ''Home'' 10 ''t1'' ''d1'', clean_row ''y'' 1 ''Home'' 3 ''t2'' ''d2'',
                clean_row ''x'' 2 ''Home'' 20 ''t3'' ''d3'']\<rparr>"]
  by (simp add: clean_row_def)

text \<open>
  C2. The negative-amount rule at work on two records, one with a negative amount and one
  with no amount: it counts one record and removes both, and the null-amount rule after it
  finds nothing to count, so the report names one removal where two records were removed.
\<close>

theorem negative_rule_removes_null_amounts:
  "length (rows (after_dates example_parse example_date (DataFrame negative_and_null))) = 2
   \<and> length (filter amount_lt0
         (rows (after_dates example_parse example_date (DataFrame negative_and_null)))) = 1
   \<and> length (filter (\<lambda>r. amount r = None)
         (rows (after_dates example_parse example_date (DataFrame negative_and_null)))) = 1
   \<and> fst (remove_negative_amounts
         (after_dates example_parse example_date (DataFrame negative_and_null)))
       = [RemovingNegative 1]
   \<and> rows (after_negative example_parse example_date (DataFrame negative_and_null)) = []
   \<and> fst (remove_null_amounts
         (after_negative example_parse example_date (DataFrame negative_and_null))) = []
   \<and> fst (transform_data example_parse example_date (DataFrame negative_and_null))
       = [RemovingNegative 1, Transformed 0, RecordsRemoved 2]"
  by code_simp

text \<open>
  C3 as stated fails: on a single record that breaks no rule the report is one line, the
  count of records kept, and says nothing about any of the four rules.
\<close>

theorem zero_counts_not_reported:
  "fst (transform_data example_parse example_date (DataFrame one_order)) = [Transformed 1]"
  by code_simp

text \<open>
  C3, amended. When the Transformer returns, its report has a rule's line exactly when the
  count that rule computes is positive, and the line carries that count: the rows whose
  timestamp does not parse, the rows with a negative amount among those with a parsed
  timestamp, the rows with no amount left after the negative-amount rule, and the rows
  marked as duplicates after the null-amount rule. A count of zero is not printed.
\<close>

theorem counts_reported_when_positive:
  assumes "transform_data parse date_str df = (msgs, Return out)"
  shows "(RemovingInvalidTs n \<in> set msgs \<longleftrightarrow>
            length (filter (\<lambda>r. to_datetime parse (map timestamp (rows df)) (timestamp r) = None)
              (rows df)) = n \<and> 0 < n)
       \<and> (RemovingNegative n \<in> set msgs \<longleftrightarrow>
            length (filter amount_lt0 (rows (after_dates parse date_str df))) = n \<and> 0 < n)
       \<and> (RemovingNull n \<in> set msgs \<longleftrightarrow>
            length (filter (\<lambda>r. amount r = None) (rows (after_negative parse date_str df))) = n
            \<and> 0 < n)
       \<and> (RemovingDuplicates n \<in> set msgs \<longleftrightarrow>
            length (filter id (duplicated (map order_id (rows (after_null parse date_str df))))) = n
            \<and> 0 < n)
       \<and> Transformed (length (rows out)) \<in> set msgs"
  unfolding transform_data_msgs[OF assms] clean_timestamps_msgs
  by (auto simp: remove_negative_amounts_def remove_null_amounts_def remove_duplicate_order_ids_def Let_def)

theorem counts_reported_when_positive_witness:
  "transform_data example_parse example_date example_frame
     = (example_report, Return example_clean)
   \<and> RemovingInvalidTs 1 \<in> set example_report
   \<and> length (filter (\<lambda>r. to_datetime example_parse
                          (map timestamp (rows example_frame))
                          (timestamp r) = None) (rows example_frame)) = 1
   \<and> RemovingNegative 1 \<in> set example_report
   \<and> length (filter amount_lt0
         (rows (after_dates example_parse example_date example_frame))) = 1
   \<and> RemovingNull 1 \<notin> set example_report
   \<and> RemovingDuplicates 1 \<in> set example_report
   \<and> length (filter id (duplicated (map order_id
         (rows (after_null example_parse example_date example_frame))))) = 1"
  using counts_reported_when_positive[OF example_transform, of 1] example_transform
  by (auto simp: example_report_def)

text \<open>
  C4 as stated fails: the frame the Transformer returned on the example orders has no
  \<open>timestamp\<close> column, so the Transformer run on it stops at schema validation.
\<close>

theorem retransform_exits_on_example:
  "transform_data example_parse example_date example_frame
     = (example_report, Return example_clean)
   \<and> transform_data example_parse example_date example_clean
     = ([MissingColumns {''timestamp''}], Exit 1)"
  using example_transform retransform_exits[of example_clean example_parse example_date]
  by (simp add: example_clean_def)

text \<open>
  C4, amended. Run on a frame it has returned, the Transformer exits with status 1 at
  schema validation, whatever the parser: the frame has no \<open>timestamp\<close> column. Its
  rules are idempotent on the records: when that frame is given a \<open>timestamp\<close> column
  whose strings parse to the date-times the records already hold, the Transformer returns
  the same frame again and reports no removal.
\<close>

theorem transform_of_clean_output:
  assumes "transform_data parse date_str df = (msgs, Return out)"
  shows "transform_data parse' date_str' out = ([MissingColumns {''timestamp''}], Exit 1)
       \<and> ((\<forall>r\<in>set (rows out). parse (map (\<lambda>r. Some (f r)) (rows out)) (f r) = ts_clean r) \<longrightarrow>
            transform_data parse date_str (with_timestamps f out)
              = ([Transformed (length (rows out))], Return out))"
proof -
  from assms have out: "out = cleaned parse date_str df"
    by (rule transform_data_Return)
  have "columns out = clean_columns"
    unfolding out by (rule cleaned_columns)
  then have "transform_data parse' date_str' out = ([MissingColumns {''timestamp''}], Exit 1)"
    by (rule retransform_exits)
  moreover have "clean_frame date_str out"
    unfolding out by (rule cleaned_clean_frame)
  ultimately show ?thesis
    using transform_restored[of date_str out parse f] by blast
qed

theorem transform_of_clean_output_witness:
  "transform_data example_parse example_date example_frame
     = (example_report, Return example_clean)
   \<and> transform_data example_parse example_date example_clean
     = ([MissingColumns {''timestamp''}], Exit 1)
   \<and> list_all (\<lambda>r. example_parse (map (\<lambda>r. Some (parsed_string r)) (rows example_clean))
                     (parsed_string r) = ts_clean r) (rows example_clean)
   \<and> transform_data example_parse example_date (with_timestamps parsed_string example_clean)
     = ([Transformed 2], Return example_clean)"
proof -
  have h: "\<forall>r\<in>set (rows example_clean).
      example_parse (map (\<lambda>r. Some (parsed_string r)) (rows example_clean)) (parsed_string r)
        = ts_clean r"
    by (simp add: example_clean_def clean_row_def parsed_string_def example_parse_def)
  have n: "length (rows example_clean) = 2"
    by (simp add: example_clean_def)
  from transform_of_clean_output[OF example_transform, of example_parse example_date parsed_string] h n
  show ?thesis
    using example_transform by (simp add: list_all_iff)
qed

text \<open>
  C10. When every required field is a key of at least one extracted record, schema
  validation passes and the Transformer returns, though single records may lack fields.
  A missing cell is then a row's matter: every record returned comes from an extracted
  record whose amount and timestamp are present, with its category, or \<open>Unknown\<close>
  where the category is absent or null; and the order id of every extracted record with
  a non-negative amount and a timestamp that parses is an order id of the output,
  whatever its category.
\<close>

theorem schema_is_column_level:
  fixes parse :: "string option list \<Rightarrow> string \<Rightarrow> 'ts option"
  assumes "\<forall>c\<in>set required_cols. \<exists>r\<in>set rs. c \<in> set (keys r)"
  shows "validate_schema (DataFrame rs :: 'ts frame) = ([], Return True)
      \<and> (\<exists>msgs out. transform_data parse date_str (DataFrame rs) = (msgs, Return out)
      \<and> (\<forall>w\<in>set (rows out). \<exists>r\<in>set rs. \<exists>a s.
            r_amount r = Val a \<and> r_timestamp r = Val s \<and> amount w = Some a \<and>
            order_id w = cell (r_order_id r) \<and> user_id w = cell (r_user_id r) \<and>
            category w = (case r_category r of Val c \<Rightarrow> Some c | _ \<Rightarrow> Some ''Unknown''))
      \<and> (\<forall>r\<in>set rs. \<forall>a s.
            r_amount r = Val a \<and> 0 \<le> a \<and> r_timestamp r = Val s \<and>
            parse (map (\<lambda>r. cell (r_timestamp r)) rs) s \<noteq> None \<longrightarrow>
            cell (r_order_id r) \<in> order_id ` set (rows out)))"
proof -
  let ?df = "DataFrame rs :: 'ts frame"
  from assms have v: "validate_schema ?df = ([], Return True)"
    by (simp add: validate_schema_DataFrame)
  from transform_data_passes[OF this] obtain msgs where
    m: "transform_data parse date_str ?df = (msgs, Return (cleaned parse date_str ?df))"
    by blast
  have rows: "rows ?df = map to_row rs"
    by (simp add: DataFrame_def)
  have col: "map timestamp (rows ?df) = map (\<lambda>r. cell (r_timestamp r)) rs"
    by (simp add: rows to_row_def o_def)
  have A: "\<exists>r\<in>set rs. \<exists>a s.
            r_amount r = Val a \<and> r_timestamp r = Val s \<and> amount w = Some a \<and>
            order_id w = cell (r_order_id r) \<and> user_id w = cell (r_user_id r) \<and>
            category w = (case r_category r of Val c \<Rightarrow> Some c | _ \<Rightarrow> Some ''Unknown'')"
    if "w \<in> set (rows (cleaned parse date_str ?df))" for w
  proof -
    from cleaned_source[OF that] obtain x t a where
      x: "x \<in> set (rows ?df)" "to_datetime parse (map timestamp (rows ?df)) (timestamp x) = Some t"
        "amount x = Some a"
        "w = x\<lparr>category := (case category x of None \<Rightarrow> Some ''Unknown'' | Some c \<Rightarrow> Some c),
              timestamp := None, ts_clean := Some t, order_date := Some (date_str t)\<rparr>"
      by blast
    from x(1) obtain r where r: "r \<in> set rs" "x = to_row r"
      by (auto simp: rows)
    from x(3) r(2) have ra: "r_amount r = Val a"
      by (simp add: to_row_def cell_Some)
    from x(2) r(2) obtain s where rs: "r_timestamp r = Val s"
      by (cases "r_timestamp r") (auto simp: to_row_def to_datetime_def)
    have "category w = (case r_category r of Val c \<Rightarrow> Some c | _ \<Rightarrow> Some ''Unknown'')"
      unfolding x(4) r(2) by (cases "r_category r") (simp_all add: to_row_def)
    with r(1) ra rs x(3,4) r(2) show ?thesis
      by (intro bexI[of _ r] exI[of _ a] exI[of _ s]) (simp_all add: to_row_def)
  qed
  have B: "cell (r_order_id r) \<in> order_id ` set (rows (cleaned parse date_str ?df))"
    if "r \<in> set rs" "r_amount r = Val a" "0 \<le> a" "r_timestamp r = Val s"
      "parse (map (\<lambda>r. cell (r_timestamp r)) rs) s \<noteq> None" for r a s
  proof -
    from that(5) obtain t where t: "parse (map (\<lambda>r. cell (r_timestamp r)) rs) s = Some t"
      by blast
    have "order_id (to_row r :: 'ts row) \<in> order_id ` set (rows (cleaned parse date_str ?df))"
    proof (rule cleaned_keeps_id)
      show "to_row r \<in> set (rows ?df)" using that(1) by (simp add: rows)
      show "to_datetime parse (map timestamp (rows ?df)) (timestamp (to_row r :: 'ts row)) = Some t"
        unfolding col using t that(4) by (simp add: to_row_def to_datetime_def)
      show "amount (to_row r :: 'ts row) = Some a" using that(2) by (simp add: to_row_def)
      show "0 \<le> a" by fact
    qed
    then show ?thesis by (simp add: to_row_def)
  qed
  from v m A B show ?thesis
    by blast
qed

theorem schema_is_column_level_witness:
  "list_all (\<lambda>c. list_ex (\<lambda>r. c \<in> set (keys r)) partial_orders) required_cols
   \<and> list_ex (\<lambda>r. ''amount'' \<notin> set (keys r)) partial_orders
   \<and> validate_schema partial_frame = ([], Return True)
   \<and> transform_data example_parse example_date partial_frame
     = ([RemovingInvalidTs 1, RemovingNull 1, Transformed 1, RecordsRemoved 2],
        Return \<lparr>columns = clean_columns,
                rows = [clean_row ''a'' 1 ''Unknown'' 10 ''2024-01-01T00:00:00'' ''2024-01-01'']\<rparr>)"
proof -
  have h: "\<forall>c\<in>set required_cols. \<exists>r\<in>set partial_orders. c \<in> set (keys r)"
    by (simp add: required_cols_def partial_orders_def order_def keys_def)
  have e: "list_ex (\<lambda>r. ''amount'' \<notin> set (keys r)) partial_orders"
    by (simp add: partial_orders_def order_def keys_def)
  have t: "transform_data example_parse example_date partial_frame
     = ([RemovingInvalidTs 1, RemovingNull 1, Transformed 1, RecordsRemoved 2],
        Return \<lparr>columns = clean_columns,
                rows = [clean_row ''a'' 1 ''Unknown'' 10 ''2024-01-01T00:00:00'' ''2024-01-01'']\<rparr>)"
    unfolding partial_frame_def by code_simp
  from schema_is_column_level[OF h, of example_parse example_date]
  have "validate_schema partial_frame = ([], Return True)"
    unfolding partial_frame_def by (rule conjunct1)
  with h e t show ?thesis
    by (simp add: list_all_iff list_ex_iff)
qed

text \<open>
  C7 as stated fails when no line decodes: a file of one malformed line ends the run with
  status 1, with no record produced and no count of skipped lines.
\<close>

theorem extract_aborts_without_records:
  "(extract_data example_loads pandas_builds (File [''oops''] False)
      :: msg list \<times> string frame outcome)
     = ([InvalidJSON 1, NoValidData], Exit 1)"
  by code_simp

text \<open>
  C7, amended. For a file of \<open>N\<close> lines that is read to its end, \<open>M\<close> of which are not
  valid JSON while every other line decodes to an object: \<open>N - M\<close> lines decode, and
  there is one warning for each malformed line, with its line number. When \<open>M < N\<close> the
  Extractor returns the frame of the \<open>N - M\<close> decoded records in line order, reports
  \<open>N - M\<close> extracted and, when \<open>M\<close> is positive, \<open>M\<close> skipped. When \<open>M = N\<close> it
  exits with status 1. Nothing is said of a file with a line that decodes to a value that
  is not an object, or to an object with a field of another type than the data model's.
\<close>

theorem extract_tolerates_malformed:
  assumes "N = length ls" and "M = length (filter (\<lambda>l. loads l = None) ls)"
    and "list_all is_object (List.map_filter loads ls)"
  shows "length (objects (List.map_filter loads ls)) = N - M
       \<and> length (malformed_at loads 1 ls) = M
       \<and> (M < N \<longrightarrow>
            (extract_data loads raises (File ls False) :: msg list \<times> 'ts frame outcome)
              = (map InvalidJSON (malformed_at loads 1 ls) @ [Extracted (N - M)] @
                   (if 0 < M then [SkippedMalformed M] else []),
                 Return (DataFrame (objects (List.map_filter loads ls))))
            \<and> rows (DataFrame (objects (List.map_filter loads ls)) :: 'ts frame)
              = map to_row (objects (List.map_filter loads ls)))
       \<and> (M = N \<longrightarrow>
            (extract_data loads raises (File ls False) :: msg list \<times> 'ts frame outcome)
              = (map InvalidJSON (malformed_at loads 1 ls) @ [NoValidData], Exit 1))"
proof -
  have len: "length (List.map_filter loads ls) = N - M" and le: "M \<le> N"
    using map_filter_length[of loads ls] assms(1,2) by simp_all
  have lo: "length (objects vs) = length vs" if "list_all is_object vs" for vs
    using that by (induction vs rule: objects.induct) auto
  have e: "List.map_filter loads ls = [] \<longleftrightarrow> M = N"
    using len le by (metis diff_is_0_eq le_antisym length_0_conv)
  show ?thesis
    using len e assms(2) lo[OF assms(3)]
    by (auto simp: extract_data_def read_lines_eq malformed_at_length DataFrame_def Let_def
        pd_DataFrame_objects[OF assms(3)])
qed

theorem extract_tolerates_malformed_witness:
  "4 = length example_lines
   \<and> 2 = length (filter (\<lambda>l. example_loads l = None) example_lines)
   \<and> list_all is_object (List.map_filter example_loads example_lines)
   \<and> (extract_data example_loads pandas_builds (File example_lines False)
         :: msg list \<times> string frame outcome)
     = ([InvalidJSON 2, InvalidJSON 3, Extracted 2, SkippedMalformed 2],
        Return (DataFrame (objects (List.map_filter example_loads example_lines))))
   \<and> objects (List.map_filter example_loads example_lines)
     = [order (Val ''a'') (Val 1) (Val ''Home'') (Val 10) (Val ''2024-01-01T00:00:00''),
        order (Val ''b'') (Val 1) (Val ''Home'') (Val 10) (Val ''2024-01-01T00:00:00'')]"
proof -
  have n: "4 = length example_lines"
    by (simp add: example_lines_def)
  have m: "2 = length (filter (\<lambda>l. example_loads l = None) example_lines)"
    by (simp add: example_lines_def example_loads_def)
  have o: "list_all is_object (List.map_filter example_loads example_lines)"
    by (simp add: example_lines_def example_loads_def)
  have w: "malformed_at example_loads 1 example_lines = [2, 3]"
    by (simp add: malformed_at_def example_lines_def example_loads_def upt_rec)
  have p: "objects (List.map_filter example_loads example_lines)
     = [order (Val ''a'') (Val 1) (Val ''Home'') (Val 10) (Val ''2024-01-01T00:00:00''),
        order (Val ''b'') (Val 1) (Val ''Home'') (Val 10) (Val ''2024-01-01T00:00:00'')]"
    by (simp add: example_lines_def example_loads_def)
  have lt: "(2::nat) < 4"
    by simp
  from extract_tolerates_malformed[OF n m o, where 'ts = string and raises = pandas_builds] lt
  have "(extract_data example_loads pandas_builds (File example_lines False)
           :: msg list \<times> string frame outcome)
     = (map InvalidJSON (malformed_at example_loads 1 example_lines) @ [Extracted (4 - 2)] @
          (if (0::nat) < 2 then [SkippedMalformed 2] else []),
        Return (DataFrame (objects (List.map_filter example_loads example_lines))))"
    by blast
  then have "(extract_data example_loads pandas_builds (File example_lines False)
                :: msg list \<times> string frame outcome)
     = ([InvalidJSON 2, InvalidJSON 3, Extracted 2, SkippedMalformed 2],
        Return (DataFrame (objects (List.map_filter example_loads example_lines))))"
    unfolding w by simp
  with n m o p show ?thesis
    by (intro conjI)
qed




text \<open>
  C5 as stated fails for the preview inside the pipeline: when the category query fails,
  the summary query, which would have succeeded, is never sent to the engine.
\<close>

theorem preview_stops_at_first_failure:
  "run_analytics (Some (sql_engine exact_arith category_fails no_groups)) example_clean
     = ([AnalyticsFailed], [CategoryQuery])
   \<and> sql_engine exact_arith category_fails no_groups (SummaryQuery summary_preview) example_clean \<noteq> None"
  by (simp add: run_analytics_def sql_engine_def category_fails_def)

text \<open>
  C5, amended. The analytics script, once the output file exists and the engine is
  connected, sends all three queries whatever fails, prints an error for exactly the
  queries that fail, and exits with status 0. The preview inside the pipeline reports a
  failure exactly when one of the queries it sent failed, and sends the summary query
  only when the category query succeeded; the exit status of the pipeline does not depend
  on the engine.
\<close>

theorem query_failures:
  "(\<exists>msgs. analytics_script (Some df) (Some con)
             = (msgs, 0, [CategoryQuery, DailyQuery, SummaryQuery summary_overall])
      \<and> (ErrorCategoryQuery \<in> set msgs \<longleftrightarrow> con CategoryQuery df = None)
      \<and> (ErrorDailyQuery \<in> set msgs \<longleftrightarrow> con DailyQuery df = None)
      \<and> (ErrorSummaryQuery \<in> set msgs \<longleftrightarrow> con (SummaryQuery summary_overall) df = None))
   \<and> (AnalyticsFailed \<in> set (fst (run_analytics (Some con) df)) \<longleftrightarrow>
        con CategoryQuery df = None \<or> con (SummaryQuery summary_preview) df = None)
   \<and> snd (run_analytics (Some con) df)
       = (if con CategoryQuery df = None then [CategoryQuery]
          else [CategoryQuery, SummaryQuery summary_preview])
   \<and> snd (main loads raises parse date_str input writable (Some con))
       = snd (main loads raises parse date_str input writable None)"
  by (auto simp: analytics_script_def run_analytics_def main_def Let_def
      split: option.splits prod.splits outcome.splits)

theorem query_failures_witness:
  "analytics_script (Some example_clean) (Some (sql_engine exact_arith category_fails no_groups))
     = ([ErrorCategoryQuery, Printed [],
         Printed [eval_select exact_arith summary_overall (rows example_clean)], AnalysisComplete],
        0, [CategoryQuery, DailyQuery, SummaryQuery summary_overall])
   \<and> snd (run_analytics (Some (sql_engine exact_arith category_fails no_groups)) example_clean)
     = [CategoryQuery]"
  using query_failures[of example_clean "sql_engine exact_arith category_fails no_groups"]
  by (simp add: analytics_script_def sql_engine_def category_fails_def no_groups_def)

text \<open>
  C6 as stated fails for the preview inside the pipeline: its summary has four columns,
  the order count, the distinct users, the total revenue and the average; on the example
  records the smallest amount is 5/2 and the largest 10, and neither is printed.
\<close>

theorem preview_summary_has_no_min_max:
  "fst (run_analytics (Some (sql_engine exact_arith never_fails no_groups)) example_clean)
     = [Printed [],
        Printed [[(''total_orders'', SqlInt 2), (''unique_users'', SqlInt 2),
                  (''total_revenue'', SqlNum (25 / 2)), (''avg_order'', SqlNum (25 / 4))]]]
   \<and> eval_agg exact_arith MinAmount (rows example_clean) = SqlNum (5 / 2)
   \<and> eval_agg exact_arith MaxAmount (rows example_clean) = SqlNum 10"
  by code_simp

text \<open>
  C6, amended. Whatever the floating-point arithmetic of the engine, the summary of the
  analytics script has six columns: the number of records, the number of distinct users,
  and the engine's \<open>ROUND(x, 2)\<close> of its sum of the amounts, of its average of the
  amounts, of the smallest amount and of the largest amount; the last four are \<open>NULL\<close>
  when there is no amount. The summary of the preview inside the pipeline has the first
  four of these columns and no minimum or maximum. Each is what the entry point prints
  when its queries do not fail.
\<close>

theorem summary_columns:
  "eval_select ar summary_overall (rows df) =
     [(''total_orders'', SqlInt (int (length (rows df)))),
      (''unique_users'', SqlInt (int (card (set (user_ids (rows df)))))),
      (''total_revenue'',
         if amounts (rows df) = [] then SqlNull
         else SqlNum (fround ar 2 (fsum ar (amounts (rows df))))),
      (''avg_order_value'',
         if amounts (rows df) = [] then SqlNull
         else SqlNum (fround ar 2 (favg ar (amounts (rows df))))),
      (''min_order'',
         if amounts (rows df) = [] then SqlNull
         else SqlNum (fround ar 2 (Min (set (amounts (rows df)))))),
      (''max_order'',
         if amounts (rows df) = [] then SqlNull
         else SqlNum (fround ar 2 (Max (set (amounts (rows df))))))]
   \<and> eval_select ar summary_preview (rows df) =
     [(''total_orders'', SqlInt (int (length (rows df)))),
      (''unique_users'', SqlInt (int (card (set (user_ids (rows df)))))),
      (''total_revenue'',
         if amounts (rows df) = [] then SqlNull
         else SqlNum (fround ar 2 (fsum ar (amounts (rows df))))),
      (''avg_order'',
         if amounts (rows df) = [] then SqlNull
         else SqlNum (fround ar 2 (favg ar (amounts (rows df)))))]
   \<and> (\<not> fails (SummaryQuery summary_overall) \<longrightarrow>
        Printed [eval_select ar summary_overall (rows df)]
          \<in> set (fst (analytics_script (Some df) (Some (sql_engine ar fails grouped)))))
   \<and> (\<not> fails CategoryQuery \<and> \<not> fails (SummaryQuery summary_preview) \<longrightarrow>
        fst (run_analytics (Some (sql_engine ar fails grouped)) df)
          = [Printed (grouped CategoryQuery df),
             Printed [eval_select ar summary_preview (rows df)]])"
  using eval_summary_overall[of ar "rows df"] eval_summary_preview[of ar "rows df"]
    script_prints_summary[of fails ar df grouped] preview_prints_summary[of fails ar grouped df]
  by blast

theorem summary_columns_witness:
  "\<not> never_fails (SummaryQuery summary_overall)
   \<and> eval_select exact_arith summary_overall (rows example_clean) =
     [(''total_orders'', SqlInt 2), (''unique_users'', SqlInt 2),
      (''total_revenue'', SqlNum (25 / 2)), (''avg_order_value'', SqlNum (25 / 4)),
      (''min_order'', SqlNum (5 / 2)), (''max_order'', SqlNum 10)]
   \<and> Printed [eval_select exact_arith summary_overall (rows example_clean)]
       \<in> set (fst (analytics_script (Some example_clean)
                 (Some (sql_engine exact_arith never_fails no_groups))))"
proof -
  have f: "\<not> never_fails (SummaryQuery summary_overall)"
    by (simp add: never_fails_def)
  have e: "eval_select exact_arith summary_overall (rows example_clean) =
     [(''total_orders'', SqlInt 2), (''unique_users'', SqlInt 2),
      (''total_revenue'', SqlNum (25 / 2)), (''avg_order_value'', SqlNum (25 / 4)),
      (''min_order'', SqlNum (5 / 2)), (''max_order'', SqlNum 10)]"
    by code_simp
  from summary_columns[of exact_arith example_clean never_fails no_groups] f
  have "Printed [eval_select exact_arith summary_overall (rows example_clean)]
       \<in> set (fst (analytics_script (Some example_clean)
                 (Some (sql_engine exact_arith never_fails no_groups))))"
    by blast
  with f e show ?thesis
    by (intro conjI)
qed

end
